theory Spec2Isabelle
  imports Complex_Main "HOL-Library.Sublist" "HOL-Library.Log_Nat"
begin

section \<open>Python values used by the pipeline\<close>

text \<open>
  Exceptions are values.  Every exception the pipeline can meet derives from Python's
  \<open>Exception\<close>; it carries its class and the text that \<open>str(exc)\<close> returns.
\<close>

datatype exc_class =
    ValueError | TypeError | OverflowError | ZeroDivisionError | ClientError | UnidentifiedImageError | OSError

datatype py_error = Exc exc_class string

fun exc_text :: "py_error \<Rightarrow> string" where
  "exc_text (Exc c msg) = msg"

fun exc_cls :: "py_error \<Rightarrow> exc_class" where
  "exc_cls (Exc c msg) = c"

text \<open>
  A Python \<open>str\<close> is modelled as a \<open>string\<close>, one \<open>char\<close> per code point, for the
  code points below 256.  \<open>bytes\<close> objects are byte lists.
\<close>

type_synonym bytes = "nat list"

subsection \<open>\<open>str.split(sep)\<close>, \<open>str.rsplit(sep, 1)\<close>, \<open>str.strip()\<close>\<close>

text \<open>
  \<open>s.split(c)\<close> for a one-character separator: the pieces between the occurrences of
  \<open>c\<close>, empty pieces included; the empty string gives one empty piece.
\<close>

fun split_char :: "char \<Rightarrow> string \<Rightarrow> string list" where
  "split_char c [] = [[]]"
| "split_char c (x # xs) =
     (if x = c then [] # split_char c xs
      else (case split_char c xs of
              p # ps \<Rightarrow> (x # p) # ps
            | [] \<Rightarrow> [[x]]))"

text \<open>
  \<open>s.rsplit(c, 1)\<close>: at most one split, at the last occurrence of \<open>c\<close>.
\<close>

definition rsplit1 :: "char \<Rightarrow> string \<Rightarrow> string list" where
  "rsplit1 c s =
     (if c \<in> set s
      then [rev (tl (dropWhile (\<lambda>x. x \<noteq> c) (rev s))), rev (takeWhile (\<lambda>x. x \<noteq> c) (rev s))]
      else [s])"

text \<open>
  \<open>str.isspace\<close> on the code points below 256: tab to carriage return, the four
  separators 28 to 31, the space, NEL (133) and the no-break space (160).
\<close>

definition is_space :: "char \<Rightarrow> bool" where
  "is_space c =
     (let n = (of_char c :: nat)
      in (9 \<le> n \<and> n \<le> 13) \<or> (28 \<le> n \<and> n \<le> 32) \<or> n = 133 \<or> n = 160)"

definition strip :: "string \<Rightarrow> string" where
  "strip s = rev (dropWhile is_space (rev (dropWhile is_space s)))"

subsection \<open>\<open>str(int)\<close> and \<open>int(str)\<close>\<close>

definition digit_char :: "nat \<Rightarrow> char" where
  "digit_char d = char_of (48 + d)"

function str_nat :: "nat \<Rightarrow> string" where
  "str_nat n = (if n < 10 then [digit_char n] else str_nat (n div 10) @ [digit_char (n mod 10)])"
  by pat_completeness auto
termination
  by (relation "measure id") auto

declare str_nat.simps [simp del]

definition str_int :: "int \<Rightarrow> string" where
  "str_int i = (if i < 0 then CHR ''-'' # str_nat (nat (- i)) else str_nat (nat i))"

definition is_digit :: "char \<Rightarrow> bool" where
  "is_digit c = (let n = (of_char c :: nat) in 48 \<le> n \<and> n \<le> 57)"

definition digit_val :: "char \<Rightarrow> int" where
  "digit_val c = int (of_char c) - 48"

text \<open>
  The digits of a decimal literal as \<open>int()\<close> reads them: decimal digits, with single
  underscores allowed between two digits.  \<open>parse_digits acc prev s\<close> has read the value
  \<open>acc\<close>; \<open>prev\<close> tells whether the character just read was a digit.
\<close>

fun parse_digits :: "int \<Rightarrow> bool \<Rightarrow> string \<Rightarrow> int option" where
  "parse_digits acc prev [] = (if prev then Some acc else None)"
| "parse_digits acc prev (c # cs) =
     (if is_digit c then parse_digits (10 * acc + digit_val c) True cs
      else if c = CHR ''_'' \<and> prev then parse_digits acc False cs
      else None)"

text \<open>
  \<open>int(s)\<close> for a \<open>str\<close>: surrounding whitespace is dropped, one sign is allowed, and
  anything else than a decimal literal raises \<open>ValueError\<close>.
\<close>

definition py_int :: "string \<Rightarrow> py_error + int" where
  "py_int s =
     (let t = strip s;
          bad = Inl (Exc ValueError (''invalid literal for int() with base 10: '' @ s))
      in case t of
           [] \<Rightarrow> bad
         | c # cs \<Rightarrow>
             if c = CHR ''-'' then (case parse_digits 0 False cs of Some n \<Rightarrow> Inr (- n) | None \<Rightarrow> bad)
             else if c = CHR ''+'' then (case parse_digits 0 False cs of Some n \<Rightarrow> Inr n | None \<Rightarrow> bad)
             else (case parse_digits 0 False t of Some n \<Rightarrow> Inr n | None \<Rightarrow> bad))"

section \<open>Output keys: \<open>derive_output_key\<close>\<close>

text \<open>
  Unpacking \<open>prefix, filename = ...\<close> needs exactly two values and \<open>base, *_ = ...\<close> at
  least one; Python raises \<open>ValueError\<close> otherwise, and so does the model.
\<close>

definition unpack_error :: py_error where
  "unpack_error = Exc ValueError ''not enough values to unpack''"

definition derive_output_key :: "string \<Rightarrow> int \<Rightarrow> py_error + string" where
  "derive_output_key src_key width =
     (if CHR ''/'' \<in> set src_key then
        (case rsplit1 CHR ''/'' src_key of
           [prefix', filename] \<Rightarrow>
             (case split_char CHR ''.'' filename of
                base # _ \<Rightarrow> Inr (prefix' @ ''/'' @ base @ ''_'' @ str_int width @ ''w.webp'')
              | [] \<Rightarrow> Inl unpack_error)
         | _ \<Rightarrow> Inl unpack_error)
      else
        (case split_char CHR ''.'' src_key of
           base # _ \<Rightarrow> Inr (base @ ''_'' @ str_int width @ ''w.webp'')
         | [] \<Rightarrow> Inl unpack_error))"

section \<open>Size lists: \<open>parse_sizes\<close>\<close>

text \<open>
  The loop over the comma-separated parts.  \<open>except ValueError\<close> catches that class
  only; any other exception of the loop body would leave the function.  The warning that
  is logged for a part that is no integer has no effect on the result and is left out.
\<close>

fun parse_loop :: "string list \<Rightarrow> int list \<Rightarrow> py_error + int list" where
  "parse_loop [] sizes = Inr sizes"
| "parse_loop (part # parts) sizes =
     (let part = strip part
      in if part = [] then parse_loop parts sizes
         else (case py_int part of
                 Inr size' \<Rightarrow>
                   if size' > 0 then parse_loop parts (sizes @ [size'])
                   else parse_loop parts sizes
               | Inl exc \<Rightarrow>
                   if exc_cls exc = ValueError then parse_loop parts sizes
                   else Inl exc))"

definition parse_sizes :: "string \<Rightarrow> py_error + int list" where
  "parse_sizes sizes_str =
     (case parse_loop (split_char CHR '','' sizes_str) [] of
        Inl exc \<Rightarrow> Inl exc
      | Inr sizes \<Rightarrow> Inr (sorted_list_of_set (set sizes)))"

section \<open>Floating point: the height of a thumbnail\<close>

text \<open>
  A Python \<open>float\<close> is an IEEE 754 binary64 number; a finite one is modelled by its exact
  value, a rational.  Every operation computes the exact result and rounds it to the
  nearest binary64 number, ties to the even significand: \<open>fl\<close>.  A number of magnitude
  \<open>x\<close> is rounded to a multiple of \<open>2 ^ e\<close> where \<open>e\<close> is \<open>\<lfloor>log\<^sub>2 x\<rfloor> - 52\<close>, and
  \<open>-1074\<close> in the subnormal range.
\<close>

definition pow2 :: "int \<Rightarrow> rat" where
  "pow2 e = (if 0 \<le> e then 2 ^ nat e else 1 / 2 ^ nat (- e))"

definition round_half_even :: "rat \<Rightarrow> int" where
  "round_half_even q =
     (let f = \<lfloor>q\<rfloor>; r = q - of_int f
      in if r < 1 / 2 then f
         else if 1 / 2 < r then f + 1
         else if even f then f else f + 1)"

definition ilog2 :: "rat \<Rightarrow> int" where
  "ilog2 x =
     (let (n, d) = quotient_of x;
          b = bitlen n - bitlen d
      in if pow2 b \<le> x then b else b - 1)"

definition fl_pos :: "rat \<Rightarrow> rat" where
  "fl_pos x = (let e = max (ilog2 x - 52) (- 1074) in of_int (round_half_even (x / pow2 e)) * pow2 e)"

definition fl :: "rat \<Rightarrow> rat" where
  "fl x = (if x = 0 then 0 else if x < 0 then - fl_pos (- x) else fl_pos x)"

text \<open>
  \<open>float(n)\<close> of an \<open>int\<close>: the nearest binary64 number, \<open>OverflowError\<close> when that is
  beyond the largest one.
\<close>

definition float_of_int :: "int \<Rightarrow> py_error + rat" where
  "float_of_int n =
     (let x = fl (of_int n)
      in if \<bar>x\<bar> < 2 ^ 1024 then Inr x
         else Inl (Exc OverflowError ''int too large to convert to float''))"

text \<open>\<open>int(x)\<close> of a finite \<open>float\<close> truncates towards zero.\<close>

definition py_trunc :: "rat \<Rightarrow> int" where
  "py_trunc x = (if 0 \<le> x then \<lfloor>x\<rfloor> else \<lceil>x\<rceil>)"

text \<open>
  Lines 124 and 125 of \<open>image_utils.py\<close>, for an image of width \<open>W\<close> and height \<open>H\<close>
  and a target width \<open>w\<close>:
  \<^verbatim>\<open>ratio = width / float(img.width); height = int(img.height * ratio)\<close>.
  The \<open>int\<close> operands are converted to \<open>float\<close>; a product beyond the largest
  binary64 number is infinite, and \<open>int\<close> of it raises.
\<close>

definition thumb_height :: "int \<Rightarrow> int \<Rightarrow> int \<Rightarrow> py_error + int" where
  "thumb_height H w W =
     (case float_of_int W of
        Inl exc \<Rightarrow> Inl exc
      | Inr fW \<Rightarrow>
          (case float_of_int w of
             Inl exc \<Rightarrow> Inl exc
           | Inr fw \<Rightarrow>
               if fW = 0 then Inl (Exc ZeroDivisionError ''float division by zero'')
               else
                 (let ratio = fl (fw / fW)
                  in case float_of_int H of
                       Inl exc \<Rightarrow> Inl exc
                     | Inr fH \<Rightarrow>
                         (let p = fl (fH * ratio)
                          in if \<bar>p\<bar> < 2 ^ 1024 then Inr (py_trunc p)
                             else Inl (Exc OverflowError
                                    ''cannot convert float infinity to integer'')))))"

section \<open>The object processor: \<open>process_image\<close>\<close>

text \<open>
  The collaborators of \<open>process_image\<close> are the S3 client and Pillow.  The bucket
  contents are a map from bucket and key to an object; what else decides a call (access
  rights, the network, the decoder, the codec) is an input of the model, the record
  \<open>env\<close>: a fault for a request, the decoder, the resampling filter and the encoder,
  each of which may raise.  The log lines of \<open>image_utils\<close> have no effect on a result
  and are left out.
\<close>

record image =
  img_width :: int
  img_height :: int
  img_data :: bytes

record s3_object =
  obj_body :: bytes
  obj_content_type :: string
  obj_metadata :: "(string \<times> string) list"

type_synonym s3_store = "string \<times> string \<Rightarrow> s3_object option"

record env =
  get_fault :: "string \<Rightarrow> string \<Rightarrow> py_error option"
  put_fault :: "string \<Rightarrow> string \<Rightarrow> py_error option"
  image_open :: "bytes \<Rightarrow> py_error + image"
  lanczos :: "image \<Rightarrow> int \<Rightarrow> int \<Rightarrow> py_error + bytes"
  webp_encode :: "image \<Rightarrow> int \<Rightarrow> py_error + bytes"
  send_fault :: "string \<Rightarrow> py_error option"
  elapsed_ms :: int

text \<open>\<open>s3_client.get_object(Bucket, Key)\<close> followed by \<open>resp["Body"].read()\<close>.\<close>

definition get_object :: "env \<Rightarrow> s3_store \<Rightarrow> string \<Rightarrow> string \<Rightarrow> py_error + bytes" where
  "get_object e s3 bucket key =
     (case get_fault e bucket key of
        Some exc \<Rightarrow> Inl exc
      | None \<Rightarrow>
          (case s3 (bucket, key) of
             None \<Rightarrow> Inl (Exc ClientError ''NoSuchKey'')
           | Some obj \<Rightarrow> Inr (obj_body obj)))"

text \<open>
  \<open>s3_client.put_object(Bucket, Key, Body, ContentType, Metadata)\<close>.  The handler
  reads the output bucket from the environment, where it may be unset; the client
  refuses a bucket that is \<open>None\<close>.
\<close>

definition put_object ::
  "env \<Rightarrow> s3_store \<Rightarrow> string option \<Rightarrow> string \<Rightarrow> bytes \<Rightarrow> string \<Rightarrow> (string \<times> string) list
     \<Rightarrow> py_error + s3_store" where
  "put_object e s3 bucket key data ctype meta =
     (case bucket of
        None \<Rightarrow> Inl (Exc ClientError ''Invalid type for parameter Bucket'')
      | Some b \<Rightarrow>
          (case put_fault e b key of
             Some exc \<Rightarrow> Inl exc
           | None \<Rightarrow>
               Inr (s3((b, key) \<mapsto>
                      \<lparr>obj_body = data, obj_content_type = ctype, obj_metadata = meta\<rparr>))))"

text \<open>\<open>img.resize((width, height), Image.LANCZOS)\<close>: an image of the size asked for.\<close>

definition resize :: "env \<Rightarrow> image \<Rightarrow> int \<Rightarrow> int \<Rightarrow> py_error + image" where
  "resize e img width height =
     (case lanczos e img width height of
        Inl exc \<Rightarrow> Inl exc
      | Inr px \<Rightarrow> Inr \<lparr>img_width = width, img_height = height, img_data = px\<rparr>)"

text \<open>
  The quality is a \<open>str\<close> or an \<open>int\<close> (the handler passes the environment's string):
  \<open>try: quality_int = int(quality)\<close>, \<open>except Exception: quality_int = 85\<close>.
\<close>

datatype py_value = PStr string | PInt int | PNone

definition quality_int :: "py_value \<Rightarrow> int" where
  "quality_int quality =
     (case (case quality of
              PInt n \<Rightarrow> Inr n
            | PStr s \<Rightarrow> py_int s
            | PNone \<Rightarrow> Inl (Exc TypeError ''int() argument must be a string or a real number''))
      of Inr n \<Rightarrow> n
       | Inl exc \<Rightarrow> 85)"

record result =
  r_sizes :: "int list"
  r_input_size :: int
  r_output_size :: int
  r_duration_ms :: int

text \<open>
  The loop over the parsed widths, lines 118 to 146.  Its state is the bucket contents,
  \<open>output_size_total\<close> and \<open>generated_sizes\<close>.  An exception leaves the loop with the
  bucket contents as they are then: earlier uploads stay.
\<close>

fun thumb_loop ::
  "env \<Rightarrow> image \<Rightarrow> string \<Rightarrow> string option \<Rightarrow> int \<Rightarrow> int list \<Rightarrow> s3_store \<Rightarrow> int \<Rightarrow> int list
     \<Rightarrow> (py_error + int \<times> int list) \<times> s3_store" where
  "thumb_loop e img object_key output_bucket q [] s3 output_size_total generated_sizes = (Inr (output_size_total, generated_sizes), s3)"
| "thumb_loop e img object_key output_bucket q (width # widths) s3 output_size_total generated_sizes =
     (if img_width img \<le> width
      then thumb_loop e img object_key output_bucket q widths s3 output_size_total generated_sizes
      else
        (case thumb_height (img_height img) width (img_width img) of
           Inl exc \<Rightarrow> (Inl exc, s3)
         | Inr height \<Rightarrow>
             (case resize e img width height of
                Inl exc \<Rightarrow> (Inl exc, s3)
              | Inr resized \<Rightarrow>
                  (case webp_encode e resized q of
                     Inl exc \<Rightarrow> (Inl exc, s3)
                   | Inr data \<Rightarrow>
                       (case derive_output_key object_key width of
                          Inl exc \<Rightarrow> (Inl exc, s3)
                        | Inr dest_key \<Rightarrow>
                            (case put_object e s3 output_bucket dest_key data ''image/webp''
                                    [(''source'', object_key), (''size'', str_int width)] of
                               Inl exc \<Rightarrow> (Inl exc, s3)
                             | Inr s3' \<Rightarrow>
                                 thumb_loop e img object_key output_bucket q widths s3'
                                   (output_size_total + int (length data)) (generated_sizes @ [width])))))))"

definition process_image ::
  "env \<Rightarrow> s3_store \<Rightarrow> string \<Rightarrow> string \<Rightarrow> string option \<Rightarrow> string \<Rightarrow> py_value
     \<Rightarrow> (py_error + result) \<times> s3_store" where
  "process_image e s3 input_bucket object_key output_bucket sizes_str quality =
     (case get_object e s3 input_bucket object_key of
        Inl exc \<Rightarrow> (Inl exc, s3)
      | Inr body \<Rightarrow>
          (case image_open e body of
             Inl exc \<Rightarrow> (Inl exc, s3)
           | Inr img \<Rightarrow>
               (case parse_sizes sizes_str of
                  Inl exc \<Rightarrow> (Inl exc, s3)
                | Inr sizes \<Rightarrow>
                    (case thumb_loop e img object_key output_bucket (quality_int quality) sizes s3 0 [] of
                       (Inl exc, s3') \<Rightarrow> (Inl exc, s3')
                     | (Inr (output_size_total, generated_sizes), s3') \<Rightarrow>
                         (Inr \<lparr>r_sizes = generated_sizes, r_input_size = int (length body),
                               r_output_size = output_size_total, r_duration_ms = elapsed_ms e\<rparr>, s3')))))"

section \<open>The event dispatcher: \<open>lambda_handler\<close>\<close>

text \<open>
  An event is an S3 notification: its \<open>Records\<close> are dicts whose \<open>s3\<close>, \<open>bucket\<close>
  and \<open>object\<close> entries are dicts and whose bucket name and object key are strings.
  Any entry may be missing: \<open>d.get(k, {})\<close> and \<open>d.get(k)\<close> then give the empty dict
  and \<open>None\<close>.
\<close>

record bucket_info =
  bi_name :: "string option"

record object_info =
  oi_key :: "string option"

record s3_info =
  si_bucket :: "bucket_info option"
  si_object :: "object_info option"

record event_record =
  er_s3 :: "s3_info option"

record event =
  ev_Records :: "event_record list option"

record config =
  OUTPUT_BUCKET :: "string option"
  THUMB_SIZES :: string
  WEBP_QUALITY :: string
  DLQ_URL :: "string option"

datatype log_entry =
    LogMalformed event_record
  | LogStart string string
  | LogComplete string string "int list"
  | LogError string string string
  | LogSentToDlq string string
  | LogDlqFailed string string string

record failure_notice =
  fn_bucket :: string
  fn_key :: string
  fn_error :: string

record state =
  st_s3 :: s3_store
  st_sqs :: "(string \<times> failure_notice) list"
  st_metrics :: "(string \<times> int \<times> string) list"
  st_namespace :: string
  st_dimensions :: "(string \<times> string) list"
  st_log :: "log_entry list"

definition record_bucket :: "event_record \<Rightarrow> string option" where
  "record_bucket r =
     (case er_s3 r of
        None \<Rightarrow> None
      | Some s3_info \<Rightarrow> (case si_bucket s3_info of None \<Rightarrow> None | Some b \<Rightarrow> bi_name b))"

definition record_key :: "event_record \<Rightarrow> string option" where
  "record_key r =
     (case er_s3 r of
        None \<Rightarrow> None
      | Some s3_info \<Rightarrow> (case si_object s3_info of None \<Rightarrow> None | Some ob \<Rightarrow> oi_key ob))"

text \<open>\<open>not x\<close> for a value that is \<open>None\<close> or a string.\<close>

definition falsy :: "string option \<Rightarrow> bool" where
  "falsy x = (case x of None \<Rightarrow> True | Some s \<Rightarrow> s = [])"

definition log_add :: "log_entry \<Rightarrow> state \<Rightarrow> state" where
  "log_add entry st = st\<lparr>st_log := st_log st @ [entry]\<rparr>"

text \<open>\<open>sqs_client.send_message(QueueUrl, MessageBody)\<close>; the body is the notice.\<close>

definition send_message :: "env \<Rightarrow> state \<Rightarrow> string \<Rightarrow> failure_notice \<Rightarrow> py_error + state" where
  "send_message e st url notice =
     (case send_fault e url of
        Some exc \<Rightarrow> Inl exc
      | None \<Rightarrow> Inr (st\<lparr>st_sqs := st_sqs st @ [(url, notice)]\<rparr>))"

text \<open>
  The \<open>except Exception as exc\<close> block, lines 115 to 165: log the error, publish the
  notice when \<open>DLQ_URL\<close> is set, log a failure to publish, and re-raise \<open>exc\<close>.
\<close>

definition on_error :: "env \<Rightarrow> config \<Rightarrow> string \<Rightarrow> string \<Rightarrow> py_error \<Rightarrow> state \<Rightarrow> py_error \<times> state" where
  "on_error e cfg bucket key exc st =
     (let st1 = log_add (LogError bucket key (exc_text exc)) st
      in if falsy (DLQ_URL cfg) then (exc, st1)
         else
           (case DLQ_URL cfg of
              None \<Rightarrow> (exc, st1)
            | Some url \<Rightarrow>
                (case send_message e st1 url
                        \<lparr>fn_bucket = bucket, fn_key = key, fn_error = exc_text exc\<rparr> of
                   Inr st2 \<Rightarrow> (exc, log_add (LogSentToDlq bucket key) st2)
                 | Inl dlq_exc \<Rightarrow>
                     (exc, log_add (LogDlqFailed bucket key (exc_text dlq_exc)) st1))))"

text \<open>The \<open>try\<close> block for one record with a bucket and a key, lines 87 to 114.\<close>

definition handle_object :: "env \<Rightarrow> config \<Rightarrow> string \<Rightarrow> string \<Rightarrow> state \<Rightarrow> (py_error + unit) \<times> state" where
  "handle_object e cfg bucket key st =
     (let st1 = log_add (LogStart bucket key) st
      in case process_image e (st_s3 st1) bucket key (OUTPUT_BUCKET cfg) (THUMB_SIZES cfg)
                (PStr (WEBP_QUALITY cfg)) of
           (Inr res, s3') \<Rightarrow>
             (Inr (),
              log_add (LogComplete bucket key (r_sizes res))
                (st1\<lparr>st_s3 := s3',
                     st_metrics := st_metrics st1 @
                       [(''thumbnails_count'', int (length (r_sizes res)), ''Count''),
                        (''duration_ms'', r_duration_ms res, ''Milliseconds''),
                        (''size_in_bytes'', r_input_size res, ''Bytes''),
                        (''size_out_bytes'', r_output_size res, ''Bytes'')]\<rparr>))
         | (Inl exc, s3') \<Rightarrow>
             (case on_error e cfg bucket key exc (st1\<lparr>st_s3 := s3'\<rparr>) of
                (exc', st2) \<Rightarrow> (Inl exc', st2)))"

text \<open>The loop over the records, lines 75 to 165.\<close>

fun handle_records :: "env \<Rightarrow> config \<Rightarrow> event_record list \<Rightarrow> state \<Rightarrow> (py_error + unit) \<times> state" where
  "handle_records e cfg [] st = (Inr (), st)"
| "handle_records e cfg (r # records) st =
     (if falsy (record_bucket r) \<or> falsy (record_key r)
      then handle_records e cfg records (log_add (LogMalformed r) st)
      else
        (case (record_bucket r, record_key r) of
           (Some bucket, Some key) \<Rightarrow>
             (case handle_object e cfg bucket key st of
                (Inl exc, st') \<Rightarrow> (Inl exc, st')
              | (Inr u, st') \<Rightarrow> handle_records e cfg records st')
         | _ \<Rightarrow> handle_records e cfg records (log_add (LogMalformed r) st)))"

definition lambda_handler :: "env \<Rightarrow> config \<Rightarrow> event \<Rightarrow> string \<Rightarrow> state \<Rightarrow> (py_error + int) \<times> state" where
  "lambda_handler e cfg ev function_name st =
     (let st0 = st\<lparr>st_namespace := ''ImagePipeline'',
                   st_dimensions := [(''FunctionName'', function_name)]\<rparr>;
          records = (case ev_Records ev of None \<Rightarrow> [] | Some rs \<Rightarrow> rs)
      in case handle_records e cfg records st0 of
           (Inl exc, st') \<Rightarrow> (Inl exc, st')
         | (Inr u, st') \<Rightarrow> (Inr 200, st'))"

section \<open>Auxiliary notions for the statements\<close>

text \<open>The sizes that a list of parts contributes: the positive integers among them.\<close>

definition kept :: "string list \<Rightarrow> int set" where
  "kept parts = {n. 0 < n \<and> (\<exists>t\<in>set parts. py_int (strip t) = Inr n)}"

section \<open>Properties of the output keys\<close>

lemma split_char_not_Nil: "split_char c s \<noteq> []"
  by (induction s) (auto split: list.splits)

lemma split_char_hd: "\<exists>ps. split_char c s = takeWhile (\<lambda>x. x \<noteq> c) s # ps"
  by (induction s) (auto split: list.splits)

lemma takeWhile_stop: "c \<notin> set xs \<Longrightarrow> takeWhile (\<lambda>x. x \<noteq> c) (xs @ c # ys) = xs"
  by (induction xs) auto

lemma dropWhile_stop: "c \<notin> set xs \<Longrightarrow> dropWhile (\<lambda>x. x \<noteq> c) (xs @ c # ys) = c # ys"
  by (induction xs) auto

lemma takeWhile_all: "c \<notin> set xs \<Longrightarrow> takeWhile (\<lambda>x. x \<noteq> c) xs = xs"
  by (induction xs) auto

lemma rsplit1_last:
  assumes "c \<notin> set f"
  shows "rsplit1 c (p @ c # f) = [p, f]"
proof -
  have nin: "c \<notin> set (rev f)"
    using assms by simp
  have "rev (p @ c # f) = rev f @ c # rev p"
    by simp
  then show ?thesis
    using takeWhile_stop [OF nin, of "rev p"] dropWhile_stop [OF nin, of "rev p"]
    by (simp add: rsplit1_def)
qed

lemma derive_key_slash:
  assumes "CHR ''/'' \<notin> set fname"
  shows "derive_output_key (dir @ CHR ''/'' # fname) w =
         Inr (dir @ ''/'' @ takeWhile (\<lambda>x. x \<noteq> CHR ''.'') fname @ ''_'' @ str_int w @ ''w.webp'')"
proof -
  obtain ps where "split_char CHR ''.'' fname = takeWhile (\<lambda>x. x \<noteq> CHR ''.'') fname # ps"
    using split_char_hd by blast
  then show ?thesis
    using assms by (simp add: derive_output_key_def rsplit1_last)
qed

lemma derive_key_noslash:
  assumes "CHR ''/'' \<notin> set k"
  shows "derive_output_key k w =
         Inr (takeWhile (\<lambda>x. x \<noteq> CHR ''.'') k @ ''_'' @ str_int w @ ''w.webp'')"
proof -
  obtain ps where "split_char CHR ''.'' k = takeWhile (\<lambda>x. x \<noteq> CHR ''.'') k # ps"
    using split_char_hd by blast
  then show ?thesis
    using assms by (simp add: derive_output_key_def)
qed

lemma derive_key_total: "\<exists>r. derive_output_key k w = Inr r"
proof (cases "CHR ''/'' \<in> set k")
  case True
  then obtain d f where "k = d @ CHR ''/'' # f" "CHR ''/'' \<notin> set f"
    by (meson split_list_last)
  then show ?thesis
    using derive_key_slash by blast
next
  case False
  then show ?thesis
    using derive_key_noslash by blast
qed

text \<open>
  Claim C2.  The output key is a function of the source key and the width alone.  For a
  file name \<open>base.ext\<close> whose \<open>base\<close> has no dot (so the dot after \<open>base\<close> is the first
  one, and \<open>ext\<close> may hold more dots), with or without a directory prefix \<open>dir\<close> (which
  may hold slashes), the key is \<open>dir/base_{width}w.webp\<close>: the prefix is kept, the
  name is cut at its first dot, \<open>_{width}w\<close> is inserted and the extension is
  \<open>.webp\<close>.  The two keys of the specification are instances.
\<close>

theorem derive_output_key_first_dot:
  assumes "CHR ''/'' \<notin> set base" and "CHR ''/'' \<notin> set ext" and "CHR ''.'' \<notin> set base"
  shows "derive_output_key (dir @ ''/'' @ base @ ''.'' @ ext) w
           = Inr (dir @ ''/'' @ base @ ''_'' @ str_int w @ ''w.webp'')
       \<and> derive_output_key (base @ ''.'' @ ext) w = Inr (base @ ''_'' @ str_int w @ ''w.webp'')
       \<and> derive_output_key ''uploads/cat.jpg'' 128 = Inr ''uploads/cat_128w.webp''
       \<and> derive_output_key ''cat.tar.gz'' 10 = Inr ''cat_10w.webp''"
proof -
  have cut: "takeWhile (\<lambda>x. x \<noteq> CHR ''.'') (base @ CHR ''.'' # ext) = base"
    using assms(3) by (rule takeWhile_stop)
  have nos: "CHR ''/'' \<notin> set (base @ CHR ''.'' # ext)"
    using assms(1,2) by simp
  have a: "derive_output_key (dir @ ''/'' @ base @ ''.'' @ ext) w
             = Inr (dir @ ''/'' @ base @ ''_'' @ str_int w @ ''w.webp'')"
    using derive_key_slash [OF nos, of dir w] cut by simp
  have b: "derive_output_key (base @ ''.'' @ ext) w = Inr (base @ ''_'' @ str_int w @ ''w.webp'')"
    using derive_key_noslash [OF nos, of w] cut by simp
  have c: "derive_output_key ''uploads/cat.jpg'' 128 = Inr ''uploads/cat_128w.webp''"
    by code_simp
  have d: "derive_output_key ''cat.tar.gz'' 10 = Inr ''cat_10w.webp''"
    by code_simp
  show ?thesis
    using a b c d by blast
qed

theorem derive_output_key_first_dot_witness:
  "CHR ''/'' \<notin> set ''cat'' \<and> CHR ''/'' \<notin> set ''tar.gz'' \<and> CHR ''.'' \<notin> set ''cat''
   \<and> derive_output_key (''a/b'' @ ''/'' @ ''cat'' @ ''.'' @ ''tar.gz'') 10
         = Inr (''a/b'' @ ''/'' @ ''cat'' @ ''_'' @ str_int 10 @ ''w.webp'')"
proof -
  have h1: "CHR ''/'' \<notin> set ''cat''" by simp
  have h2: "CHR ''/'' \<notin> set ''tar.gz''" by simp
  have h3: "CHR ''.'' \<notin> set ''cat''" by simp
  show ?thesis
    using h1 h2 h3 derive_output_key_first_dot [OF h1 h2 h3, of "''a/b''" 10] by blast
qed

text \<open>
  Claim C10.  \<open>derive_output_key\<close> returns a key for every source key and width: no
  unpacking fails.  When the last path segment \<open>seg\<close> has no dot, the base name is the
  whole segment, so the key is the source key followed by \<open>_{width}w.webp\<close>.  When the
  last segment starts with a dot the base name is empty, and the key is the directory
  prefix followed by \<open>/_{width}w.webp\<close>.
\<close>

theorem derive_output_key_total:
  assumes "CHR ''/'' \<notin> set seg" and "CHR ''.'' \<notin> set seg" and "CHR ''/'' \<notin> set rest"
  shows "(\<exists>r. derive_output_key k w = Inr r)
       \<and> derive_output_key seg w = Inr (seg @ ''_'' @ str_int w @ ''w.webp'')
       \<and> derive_output_key (dir @ ''/'' @ seg) w = Inr (dir @ ''/'' @ seg @ ''_'' @ str_int w @ ''w.webp'')
       \<and> derive_output_key (dir @ ''/'' @ ''.'' @ rest) w = Inr (dir @ ''/_'' @ str_int w @ ''w.webp'')
       \<and> derive_output_key ''cat'' 128 = Inr ''cat_128w.webp''
       \<and> derive_output_key ''uploads/.hidden'' w = Inr (''uploads/_'' @ str_int w @ ''w.webp'')"
proof -
  have whole: "takeWhile (\<lambda>x. x \<noteq> CHR ''.'') seg = seg"
    using assms(2) by (rule takeWhile_all)
  have a: "derive_output_key seg w = Inr (seg @ ''_'' @ str_int w @ ''w.webp'')"
    using derive_key_noslash [OF assms(1), of w] whole by simp
  have b: "derive_output_key (dir @ ''/'' @ seg) w
             = Inr (dir @ ''/'' @ seg @ ''_'' @ str_int w @ ''w.webp'')"
    using derive_key_slash [OF assms(1), of dir w] whole by simp
  have nos: "CHR ''/'' \<notin> set (CHR ''.'' # rest)"
    using assms(3) by simp
  have c: "derive_output_key (dir @ ''/'' @ ''.'' @ rest) w = Inr (dir @ ''/_'' @ str_int w @ ''w.webp'')"
    using derive_key_slash [OF nos, of dir w] by simp
  have d: "derive_output_key ''cat'' 128 = Inr ''cat_128w.webp''"
    by code_simp
  have nos': "CHR ''/'' \<notin> set ''.hidden''"
    by simp
  have e: "derive_output_key ''uploads/.hidden'' w = Inr (''uploads/_'' @ str_int w @ ''w.webp'')"
    using derive_key_slash [OF nos', of "''uploads''" w] by simp
  show ?thesis
    using derive_key_total [of k w] a b c d e by blast
qed

theorem derive_output_key_total_witness:
  "CHR ''/'' \<notin> set ''cat'' \<and> CHR ''.'' \<notin> set ''cat'' \<and> CHR ''/'' \<notin> set ''hidden''
   \<and> (\<exists>r. derive_output_key ''a.b/c.d/e'' 7 = Inr r)
   \<and> derive_output_key (''uploads'' @ ''/'' @ ''cat'') 7 = Inr (''uploads'' @ ''/'' @ ''cat'' @ ''_'' @ str_int 7 @ ''w.webp'')
   \<and> derive_output_key (''uploads'' @ ''/'' @ ''.'' @ ''hidden'') 7 = Inr (''uploads'' @ ''/_'' @ str_int 7 @ ''w.webp'')"
proof -
  have h1: "CHR ''/'' \<notin> set ''cat''" by simp
  have h2: "CHR ''.'' \<notin> set ''cat''" by simp
  have h3: "CHR ''/'' \<notin> set ''hidden''" by simp
  show ?thesis
    using h1 h2 h3 derive_output_key_total [OF h1 h2 h3, of "''a.b/c.d/e''" 7 "''uploads''"] by blast
qed

section \<open>Properties of the size lists\<close>

lemma py_int_ValueError: "py_int s = Inl exc \<Longrightarrow> exc_cls exc = ValueError"
  by (auto simp: py_int_def Let_def split: list.splits if_splits option.splits)

lemma py_int_Nil: "py_int [] \<noteq> Inr n"
  by (simp add: py_int_def strip_def)

lemma py_int_strip_Nil: "strip t = [] \<Longrightarrow> py_int (strip t) \<noteq> Inr n"
  by (simp add: py_int_Nil)

lemma kept_Nil: "kept [] = {}"
  by (simp add: kept_def)

lemma kept_Cons: "kept (t # ts) = {n. 0 < n \<and> py_int (strip t) = Inr n} \<union> kept ts"
  by (auto simp: kept_def)

text \<open>The loop returns, and adds to the sizes read so far the positive integers of the parts.\<close>

lemma parse_loop_set:
  "\<exists>xs. parse_loop parts acc = Inr xs \<and> set xs = set acc \<union> kept parts"
proof (induction parts arbitrary: acc)
  case Nil
  then show ?case by (simp add: kept_Nil)
next
  case (Cons t ts)
  show ?case
  proof (cases "py_int (strip t)")
    case (Inl exc)
    then have "exc_cls exc = ValueError" by (rule py_int_ValueError)
    with Inl Cons [of acc] show ?thesis
      by (auto simp: kept_Cons Let_def)
  next
    case (Inr n)
    then have ne: "strip t \<noteq> []" using py_int_strip_Nil by blast
    show ?thesis
    proof (cases "0 < n")
      case True
      with Inr ne Cons [of "acc @ [n]"] show ?thesis
        by (auto simp: kept_Cons Let_def)
    next
      case False
      with Inr ne Cons [of acc] show ?thesis
        by (auto simp: kept_Cons Let_def)
    qed
  qed
qed

lemma finite_kept: "finite (kept parts)"
proof -
  obtain xs where "set xs = kept parts"
    using parse_loop_set [of parts "[]"] by auto
  then show ?thesis
    by (metis List.finite_set)
qed

lemma parse_sizes_eq:
  "parse_sizes s = Inr (sorted_list_of_set (kept (split_char CHR '','' s)))"
proof -
  obtain xs where "parse_loop (split_char CHR '','' s) [] = Inr xs"
    and "set xs = kept (split_char CHR '','' s)"
    using parse_loop_set [of "split_char CHR '','' s" "[]"] by auto
  then show ?thesis by (simp add: parse_sizes_def)
qed

lemma parse_sizes_props:
  assumes "parse_sizes s = Inr xs"
  shows "sorted_wrt (<) xs" and "distinct xs" and "set xs = kept (split_char CHR '','' s)"
  using assms finite_kept [of "split_char CHR '','' s"] by (auto simp: parse_sizes_eq)

text \<open>
  Claim C3.  For every input string \<open>parse_sizes\<close> returns a list (it raises nothing),
  and the list is strictly ascending, so free of duplicates, and holds positive integers
  only.  Its members are exactly the positive integers that the comma-separated parts
  denote once trimmed: a part that is empty after trimming, that \<open>int\<close> refuses, or that
  denotes zero or a negative number adds nothing, and when every part is such the list is
  empty.  The list depends on the set of parts only: neither their order nor how often a
  part occurs changes it.
\<close>

theorem parse_sizes_ascending_positive:
  "\<exists>xs. parse_sizes s = Inr xs
      \<and> sorted_wrt (<) xs \<and> distinct xs \<and> (\<forall>x\<in>set xs. 0 < x)
      \<and> set xs = {n. 0 < n \<and> (\<exists>t\<in>set (split_char CHR '','' s). py_int (strip t) = Inr n)}
      \<and> ((\<forall>t\<in>set (split_char CHR '','' s).
             strip t = [] \<or> (\<exists>exc. py_int (strip t) = Inl exc) \<or> (\<exists>n\<le>0. py_int (strip t) = Inr n))
           \<longrightarrow> xs = [])
      \<and> (set (split_char CHR '','' s') = set (split_char CHR '','' s) \<longrightarrow> parse_sizes s' = Inr xs)"
proof -
  let ?xs = "sorted_list_of_set (kept (split_char CHR '','' s))"
  have r: "parse_sizes s = Inr ?xs"
    by (rule parse_sizes_eq)
  have st: "set ?xs = kept (split_char CHR '','' s)"
    using parse_sizes_props(3) [OF r] .
  have pos: "\<forall>x\<in>set ?xs. 0 < x"
    unfolding st by (simp add: kept_def)
  have mem: "set ?xs = {n. 0 < n \<and> (\<exists>t\<in>set (split_char CHR '','' s). py_int (strip t) = Inr n)}"
    unfolding st by (simp add: kept_def)
  have none: "(\<forall>t\<in>set (split_char CHR '','' s).
             strip t = [] \<or> (\<exists>exc. py_int (strip t) = Inl exc) \<or> (\<exists>n\<le>0. py_int (strip t) = Inr n))
           \<longrightarrow> ?xs = []"
  proof
    assume bad: "\<forall>t\<in>set (split_char CHR '','' s).
             strip t = [] \<or> (\<exists>exc. py_int (strip t) = Inl exc) \<or> (\<exists>n\<le>0. py_int (strip t) = Inr n)"
    have "kept (split_char CHR '','' s) = {}"
    proof (rule ccontr)
      assume "kept (split_char CHR '','' s) \<noteq> {}"
      then obtain n t where "0 < n" and "t \<in> set (split_char CHR '','' s)"
        and "py_int (strip t) = Inr n"
        by (auto simp: kept_def)
      with bad show False
        using py_int_strip_Nil [of t n] by fastforce
    qed
    then show "?xs = []" by simp
  qed
  have perm: "set (split_char CHR '','' s') = set (split_char CHR '','' s) \<longrightarrow> parse_sizes s' = Inr ?xs"
  proof
    assume "set (split_char CHR '','' s') = set (split_char CHR '','' s)"
    then have "kept (split_char CHR '','' s') = kept (split_char CHR '','' s)"
      by (simp add: kept_def)
    then show "parse_sizes s' = Inr ?xs"
      by (simp add: parse_sizes_eq)
  qed
  show ?thesis
    using r parse_sizes_props(1) [OF r] parse_sizes_props(2) [OF r] pos mem none perm by blast
qed

theorem parse_sizes_ascending_positive_witness:
  "set (split_char CHR '','' ''128,512, x,0,-4,'') = set (split_char CHR '','' ''512, x,0,-4,128,,128'')
   \<and> parse_sizes ''512, x,0,-4,128,,128'' = Inr [128, 512]
   \<and> parse_sizes ''128,512, x,0,-4,'' = Inr [128, 512]"
proof -
  have h: "set (split_char CHR '','' ''128,512, x,0,-4,'')
             = set (split_char CHR '','' ''512, x,0,-4,128,,128'')"
    by code_simp
  have v: "parse_sizes ''512, x,0,-4,128,,128'' = Inr [128, 512]"
    by code_simp
  obtain xs where a: "parse_sizes ''512, x,0,-4,128,,128'' = Inr xs"
    and b: "set (split_char CHR '','' ''128,512, x,0,-4,'')
              = set (split_char CHR '','' ''512, x,0,-4,128,,128'')
            \<longrightarrow> parse_sizes ''128,512, x,0,-4,'' = Inr xs"
    using parse_sizes_ascending_positive [of "''512, x,0,-4,128,,128''" "''128,512, x,0,-4,''"]
    by blast
  from a v have "xs = [128, 512]" by simp
  with b h v show ?thesis by simp
qed

end
